theory Spec2Isabelle
  imports Complex_Main "HOL-Library.Multiset"
begin

section \<open>Shared Python notions\<close>

text \<open>
  Both programs guard their work with \<^verbatim>\<open>except Exception\<close>. That clause catches every
  instance of \<^verbatim>\<open>Exception\<close> (all the error classes) and lets the remaining
  \<^verbatim>\<open>BaseException\<close> instances (\<^verbatim>\<open>KeyboardInterrupt\<close>, \<^verbatim>\<open>SystemExit\<close>,
  \<^verbatim>\<open>CancelledError\<close>) pass. The argument is what \<^verbatim>\<open>str(e)\<close> gives.
\<close>

datatype py_exception = Exception string | SystemExiting string

text \<open>
  A finite Python float is read as the real number it denotes, with the one infinite value the
  load test writes (\<^verbatim>\<open>float('inf')\<close>) added where it can occur. The readings of
  \<^verbatim>\<open>time.time()\<close> come from outside, as parameters.
\<close>

datatype pyfloat = Finite real | Infinity

text \<open>
  The sum of two floats is the exact sum rounded to the nearest double, ties to the even
  significand (IEEE 754 binary64, the arithmetic of Python's \<^verbatim>\<open>+\<close>). \<open>ilog2 x\<close> is the
  binary exponent of a positive \<open>x\<close>, the \<open>k\<close> with \<open>2 ^ k \<le> x < 2 ^ (k + 1)\<close>; a double
  keeps 53 significant bits, so the sum is rounded to a multiple of \<open>2 ^ (k - 52)\<close>. The
  exponent range is not bounded here: the sum of two doubles never underflows, and an
  overflow needs a sum beyond \<open>2 ^ 1024\<close>.
\<close>

function ilog2 :: "real \<Rightarrow> int" where
  "ilog2 x = (if x \<le> 0 then 0
              else if 2 \<le> x then ilog2 (x / 2) + 1
              else if x < 1 then ilog2 (x * 2) - 1
              else 0)"
  by pat_completeness auto
termination
proof (relation "measure (\<lambda>x. nat \<bar>\<lfloor>log 2 x\<rfloor>\<bar>)")
  show "wf (measure (\<lambda>x. nat \<bar>\<lfloor>log 2 x\<rfloor>\<bar>))" by simp
next
  fix x :: real
  assume pos: "\<not> x \<le> 0" and big: "2 \<le> x"
  have "log 2 (x / 2) = log 2 x - 1" using pos by (simp add: log_divide)
  then have f: "\<lfloor>log 2 (x / 2)\<rfloor> = \<lfloor>log 2 x\<rfloor> - 1" by simp
  have "1 \<le> log 2 x" using big pos by (simp add: le_log_iff)
  then have "1 \<le> \<lfloor>log 2 x\<rfloor>" by (simp add: le_floor_iff)
  with f have "nat \<bar>\<lfloor>log 2 (x / 2)\<rfloor>\<bar> < nat \<bar>\<lfloor>log 2 x\<rfloor>\<bar>" by linarith
  then show "(x / 2, x) \<in> measure (\<lambda>x. nat \<bar>\<lfloor>log 2 x\<rfloor>\<bar>)" by simp
next
  fix x :: real
  assume pos: "\<not> x \<le> 0" and small: "x < 1"
  have "log 2 (x * 2) = log 2 x + 1" using pos by (simp add: log_mult)
  then have f: "\<lfloor>log 2 (x * 2)\<rfloor> = \<lfloor>log 2 x\<rfloor> + 1" by simp
  have "log 2 x < 0" using small pos by simp
  then have "\<lfloor>log 2 x\<rfloor> < 0" by (simp add: floor_less_iff)
  with f have "nat \<bar>\<lfloor>log 2 (x * 2)\<rfloor>\<bar> < nat \<bar>\<lfloor>log 2 x\<rfloor>\<bar>" by linarith
  then show "(x * 2, x) \<in> measure (\<lambda>x. nat \<bar>\<lfloor>log 2 x\<rfloor>\<bar>)" by simp
qed

declare ilog2.simps [simp del]

definition round_half_even :: "real \<Rightarrow> int" where
  "round_half_even x =
     (let f = \<lfloor>x\<rfloor>; r = x - of_int f
      in if r < 1/2 then f else if 1/2 < r then f + 1 else if even f then f else f + 1)"

definition round_double :: "real \<Rightarrow> real" where
  "round_double z =
     (if z = 0 then 0
      else let e = ilog2 \<bar>z\<bar> - 52
           in of_int (round_half_even (z / 2 powi e)) * 2 powi e)"

definition fadd :: "real \<Rightarrow> real \<Rightarrow> real" where
  "fadd x y = round_double (x + y)"

text \<open>
  An HTTP response, as the handlers of the service build it and as the load test receives it:
  the status code and the JSON object of the body.
\<close>

datatype json_value = Str string | Ints "int list"

record response =
  status_code :: int
  content :: "(string \<times> json_value) list"

section \<open>The load test (load\_test.py)\<close>

definition BASE_URL :: string where
  "BASE_URL = ''http://localhost:8000''"

definition ENDPOINTS :: "string list" where
  "ENDPOINTS = [''/'', ''/api/data'']"

text \<open>What \<^verbatim>\<open>requests.get\<close> hands back is a \<open>response\<close>; only its status code is read.\<close>

text \<open>The dictionary \<^verbatim>\<open>make_request\<close> returns.\<close>

record probe_result =
  status :: int
  duration :: real
  success :: bool

text \<open>
  Everything one call of \<^verbatim>\<open>make_request\<close> takes from outside: the draw of
  \<^verbatim>\<open>random.choice\<close> (an index, reduced modulo the length of the list), what
  \<^verbatim>\<open>requests.get\<close> does for each URL, and the two clock readings.
\<close>

record probe_env =
  choice :: nat
  requests_get :: "string \<Rightarrow> py_exception + response"
  started :: real
  finished :: real

definition make_request :: "probe_env \<Rightarrow> py_exception + probe_result" where
  "make_request env =
     (let endpoint = ENDPOINTS ! (choice env mod length ENDPOINTS);
          url = BASE_URL @ endpoint;
          start_time = started env
      in case requests_get env url of
           Inr response \<Rightarrow>
             (let duration = finished env - start_time
              in Inr \<lparr>status = status_code response,
                      duration = duration,
                      success = (status_code response < 400)\<rparr>)
         | Inl (Exception e) \<Rightarrow> Inr \<lparr>status = 0, duration = 0, success = False\<rparr>
         | Inl (SystemExiting e) \<Rightarrow> Inl (SystemExiting e))"

text \<open>The dictionary \<^verbatim>\<open>results\<close> of \<^verbatim>\<open>run_load_test\<close>, before the averages are added.\<close>

record load_statistics =
  total_requests :: int
  successful_requests :: int
  failed_requests :: int
  total_duration :: real
  min_duration :: pyfloat
  max_duration :: real

text \<open>The same dictionary once the two averages have been stored in it.\<close>

record report = load_statistics +
  avg_duration :: real
  success_rate :: real

definition initial_results :: load_statistics where
  "initial_results =
     \<lparr>total_requests = 0, successful_requests = 0, failed_requests = 0,
      total_duration = 0, min_duration = Infinity, max_duration = 0\<rparr>"

text \<open>
  Python's \<^verbatim>\<open>min(a, b)\<close> returns \<open>a\<close> unless \<open>b < a\<close>, and \<^verbatim>\<open>max(a, b)\<close> returns \<open>a\<close>
  unless \<open>b > a\<close>. The first argument of \<^verbatim>\<open>min\<close> is the running minimum, which may still
  be infinite.
\<close>

fun py_min :: "pyfloat \<Rightarrow> real \<Rightarrow> pyfloat" where
  "py_min Infinity d = Finite d"
| "py_min (Finite m) d = (if d < m then Finite d else Finite m)"

definition py_max :: "real \<Rightarrow> real \<Rightarrow> real" where
  "py_max m d = (if d > m then d else m)"

text \<open>
  The body of the \<^verbatim>\<open>try\<close> in the loop over the futures, once \<^verbatim>\<open>future.result()\<close> has
  returned. \<^verbatim>\<open>total_duration += duration\<close> is an addition of floats; the counters are
  integers, and \<^verbatim>\<open>min\<close> and \<^verbatim>\<open>max\<close> only compare.
\<close>

definition fold_result :: "load_statistics \<Rightarrow> probe_result \<Rightarrow> load_statistics" where
  "fold_result results result =
     (let r1 = results\<lparr>total_requests := total_requests results + 1\<rparr>;
          r2 = r1\<lparr>total_duration := fadd (total_duration r1) (duration result)\<rparr>;
          r3 = (if success result
                then r2\<lparr>successful_requests := successful_requests r2 + 1\<rparr>
                else r2\<lparr>failed_requests := failed_requests r2 + 1\<rparr>);
          r4 = r3\<lparr>min_duration := py_min (min_duration r3) (duration result)\<rparr>
      in r4\<lparr>max_duration := py_max (max_duration r4) (duration result)\<rparr>)"

text \<open>
  One turn of the loop over the futures: \<^verbatim>\<open>future.result()\<close> either returns the task's
  dictionary or raises what the task raised; an \<^verbatim>\<open>Exception\<close> is counted as a failed request,
  anything else leaves the function.
\<close>

definition collect :: "load_statistics \<Rightarrow> py_exception + probe_result \<Rightarrow> py_exception + load_statistics" where
  "collect results future =
     (case future of
        Inr result \<Rightarrow> Inr (fold_result results result)
      | Inl (Exception e) \<Rightarrow> Inr (results\<lparr>failed_requests := failed_requests results + 1\<rparr>)
      | Inl (SystemExiting e) \<Rightarrow> Inl (SystemExiting e))"

fun collect_all :: "load_statistics \<Rightarrow> (py_exception + probe_result) list \<Rightarrow> py_exception + load_statistics" where
  "collect_all results [] = Inr results"
| "collect_all results (future # futures) =
     (case collect results future of
        Inl e \<Rightarrow> Inl e
      | Inr results' \<Rightarrow> collect_all results' futures)"

text \<open>
  The world a run lives in: the readings of \<^verbatim>\<open>time.time()\<close> in the main thread, in the
  order of the calls, and what the \<open>k\<close>-th submitted task meets.
\<close>

record world =
  clock :: "nat \<Rightarrow> real"
  task :: "nat \<Rightarrow> probe_env"

text \<open>The state of the main thread: the dictionary \<^verbatim>\<open>results\<close>, and how often it read the clock and submitted a task.\<close>

record harness =
  stats :: load_statistics
  ticks :: nat
  submitted :: nat

text \<open>
  One batch: \<^verbatim>\<open>concurrent_users\<close> tasks are submitted, then every future is awaited in
  the order of submission before anything else happens.
\<close>

definition run_batch :: "world \<Rightarrow> nat \<Rightarrow> harness \<Rightarrow> py_exception + harness" where
  "run_batch w concurrent_users h =
     (let futures = map (\<lambda>k. make_request (task w k))
                        [submitted h ..< submitted h + concurrent_users];
          h1 = h\<lparr>submitted := submitted h + concurrent_users\<rparr>
      in case collect_all (stats h1) futures of
           Inl e \<Rightarrow> Inl e
         | Inr results' \<Rightarrow> Inr (h1\<lparr>stats := results'\<rparr>))"

text \<open>
  The \<^verbatim>\<open>while time.time() < end_time\<close> loop. Nothing bounds the number of turns but the
  clock, so a run that never ends is the value \<open>None\<close>.
\<close>

partial_function (option) batches :: "world \<Rightarrow> real \<Rightarrow> nat \<Rightarrow> harness \<Rightarrow> (py_exception + harness) option" where
  "batches w end_time concurrent_users h =
     (if clock w (ticks h) < end_time
      then (case run_batch w concurrent_users (h\<lparr>ticks := ticks h + 1\<rparr>) of
              Inl e \<Rightarrow> Some (Inl e)
            | Inr h' \<Rightarrow> batches w end_time concurrent_users h')
      else Some (Inr h))"

text \<open>The averages computed after the loop.\<close>

definition finalize :: "load_statistics \<Rightarrow> report" where
  "finalize results =
     (if total_requests results > 0
      then load_statistics.extend results
             \<lparr>avg_duration = total_duration results / real_of_int (total_requests results),
              success_rate =
                (real_of_int (successful_requests results) / real_of_int (total_requests results)) * 100\<rparr>
      else load_statistics.extend results \<lparr>avg_duration = 0, success_rate = 0\<rparr>)"

text \<open>
  \<^verbatim>\<open>ThreadPoolExecutor\<close> refuses a pool of no workers with a \<^verbatim>\<open>ValueError\<close>; the deadline
  has been computed by then.
\<close>

definition run_load_test :: "world \<Rightarrow> int \<Rightarrow> real \<Rightarrow> (py_exception + report) option" where
  "run_load_test w concurrent_users duration_seconds =
     (let end_time = clock w 0 + duration_seconds in
      if concurrent_users \<le> 0
      then Some (Inl (Exception ''max_workers must be greater than 0''))
      else (case batches w end_time (nat concurrent_users)
                   \<lparr>stats = initial_results, ticks = 1, submitted = 0\<rparr> of
              None \<Rightarrow> None
            | Some (Inl e) \<Rightarrow> Some (Inl e)
            | Some (Inr h) \<Rightarrow> Some (Inr (finalize (stats h)))))"

section \<open>The service and its middleware (app/main.py)\<close>

text \<open>
  What the middleware reads of a request: \<^verbatim>\<open>request.method\<close> (the field \<open>http_method\<close>)
  and \<^verbatim>\<open>request.url.path\<close>.
\<close>

record request =
  http_method :: string
  url_path :: string

text \<open>
  The two log calls of the middleware. The \<^verbatim>\<open>info\<close> line carries method, path, status
  and latency; the \<^verbatim>\<open>error\<close> line carries its message.
\<close>

datatype log_record = INFO string string int real | ERROR string

text \<open>
  The module's globals: the counter \<^verbatim>\<open>http_requests_total\<close> with labels
  \<open>(method, endpoint, http_status)\<close>, the histogram \<^verbatim>\<open>http_request_duration_seconds\<close>
  with labels \<open>(method, endpoint)\<close>, kept as the list of the values observed, and the lines
  the logger has written.
\<close>

record registry =
  REQUEST_COUNT :: "string \<times> string \<times> int \<Rightarrow> nat"
  REQUEST_LATENCY :: "string \<times> string \<Rightarrow> real list"
  logger :: "log_record list"

definition initial_registry :: registry where
  "initial_registry = \<lparr>REQUEST_COUNT = (\<lambda>labels. 0), REQUEST_LATENCY = (\<lambda>labels. []), logger = []\<rparr>"

text \<open>\<^verbatim>\<open>Counter.labels(...).inc()\<close> and \<^verbatim>\<open>Histogram.labels(...).observe(v)\<close>.\<close>

definition inc :: "('k \<Rightarrow> nat) \<Rightarrow> 'k \<Rightarrow> ('k \<Rightarrow> nat)" where
  "inc counter labels = counter(labels := counter labels + 1)"

definition observe :: "('k \<Rightarrow> real list) \<Rightarrow> 'k \<Rightarrow> real \<Rightarrow> ('k \<Rightarrow> real list)" where
  "observe histogram labels v = histogram(labels := histogram labels @ [v])"

definition JSONResponse :: "int \<Rightarrow> (string \<times> json_value) list \<Rightarrow> response" where
  "JSONResponse code body = \<lparr>status_code = code, content = body\<rparr>"

text \<open>
  The middleware. \<open>call_next\<close> returns the response of the rest of the application or
  raises what the handler raised; \<open>start_time\<close> and \<open>now\<close> are the two readings of
  \<^verbatim>\<open>time.time()\<close>. The result is what the middleware returns or lets through, and the registry
  after it.
\<close>

definition monitor_requests ::
  "request \<Rightarrow> (request \<Rightarrow> py_exception + response) \<Rightarrow> real \<Rightarrow> real \<Rightarrow> registry
   \<Rightarrow> (py_exception + response) \<times> registry" where
  "monitor_requests request call_next start_time now reg =
     (case call_next request of
        Inr response \<Rightarrow>
          (let process_time = now - start_time;
               reg1 = reg\<lparr>REQUEST_COUNT :=
                        inc (REQUEST_COUNT reg)
                            (http_method request, url_path request, status_code response)\<rparr>;
               reg2 = reg1\<lparr>REQUEST_LATENCY :=
                        observe (REQUEST_LATENCY reg1)
                                (http_method request, url_path request) process_time\<rparr>;
               reg3 = reg2\<lparr>logger := logger reg2 @
                        [INFO (http_method request) (url_path request) (status_code response) process_time]\<rparr>
           in (Inr response, reg3))
      | Inl (Exception e) \<Rightarrow>
          (Inr (JSONResponse 500 [(''detail'', Str ''Internal Server Error'')]),
           reg\<lparr>logger := logger reg @ [ERROR (''Error processing request: '' @ e)]\<rparr>)
      | Inl (SystemExiting e) \<Rightarrow> (Inl (SystemExiting e), reg))"

text \<open>
  The two handlers. \<open>get_data\<close> takes the draw of \<^verbatim>\<open>random.random()\<close>; its sleep and its
  tracing span change no value.
\<close>

definition root :: "py_exception + response" where
  "root = Inr \<lparr>status_code = 200,
               content = [(''message'', Str ''Welcome to the FastAPI Monitoring Demo'')]\<rparr>"

definition get_data :: "real \<Rightarrow> py_exception + response" where
  "get_data draw =
     (if draw < 0.1 then Inl (Exception ''Random error occurred'')
      else Inr \<lparr>status_code = 200, content = [(''data'', Ints [1, 2, 3, 4, 5])]\<rparr>)"

text \<open>The path templates the application declares: the mount and the two routes.\<close>

definition route_templates :: "string list" where
  "route_templates = [''/metrics'', ''/'', ''/api/data'']"

text \<open>
  One request-response cycle as the server sees it, and a server that passes a sequence of
  them through the middleware, one after the other, on the same registry.
\<close>

record exchange =
  incoming :: request
  handler :: "request \<Rightarrow> py_exception + response"
  arrived :: real
  answered :: real

fun serve :: "registry \<Rightarrow> exchange list \<Rightarrow> registry" where
  "serve reg [] = reg"
| "serve reg (x # xs) =
     serve (snd (monitor_requests (incoming x) (handler x) (arrived x) (answered x) reg)) xs"

section \<open>Folding one result\<close>

text \<open>
  C9: folding a probe result adds one to \<open>total_requests\<close> and one to exactly one of
  \<open>successful_requests\<close> and \<open>failed_requests\<close>, so \<open>total_requests = successful_requests +
  failed_requests\<close> is kept by every fold of a probe result.
\<close>

theorem fold_result_counts:
  "total_requests (fold_result results result) = total_requests results + 1
   \<and> ((successful_requests (fold_result results result) = successful_requests results + 1
        \<and> failed_requests (fold_result results result) = failed_requests results)
      \<or> (successful_requests (fold_result results result) = successful_requests results
        \<and> failed_requests (fold_result results result) = failed_requests results + 1))
   \<and> (total_requests results = successful_requests results + failed_requests results
      \<longrightarrow> total_requests (fold_result results result)
          = successful_requests (fold_result results result)
            + failed_requests (fold_result results result))"
  by (simp add: fold_result_def Let_def)

theorem fold_result_counts_witness:
  "total_requests initial_results = successful_requests initial_results + failed_requests initial_results
   \<and> total_requests (fold_result initial_results \<lparr>status = 0, duration = 0, success = False\<rparr>) = 1
   \<and> successful_requests (fold_result initial_results \<lparr>status = 0, duration = 0, success = False\<rparr>) = 0
   \<and> failed_requests (fold_result initial_results \<lparr>status = 0, duration = 0, success = False\<rparr>) = 1"
  using fold_result_counts [of initial_results "\<lparr>status = 0, duration = 0, success = False\<rparr>"]
  by (simp add: initial_results_def fold_result_def Let_def)

section \<open>Folding many results\<close>

lemma py_min_commute: "py_min (py_min m a) b = py_min (py_min m b) a"
  by (cases m) auto

lemma py_max_commute: "py_max (py_max m a) b = py_max (py_max m b) a"
  by (simp add: py_max_def)

text \<open>
  What a fold leaves of the statistics when \<open>total_duration\<close> is put aside: on that part
  two fold steps commute.
\<close>

lemma fold_result_aside:
  "(fold_result st r)\<lparr>total_duration := 0\<rparr>
     = (fold_result (st\<lparr>total_duration := 0\<rparr>) r)\<lparr>total_duration := 0\<rparr>"
  by (simp add: fold_result_def Let_def)

lemma foldl_fold_result_aside:
  "(foldl fold_result st rs)\<lparr>total_duration := 0\<rparr>
     = fold (\<lambda>r s. (fold_result s r)\<lparr>total_duration := 0\<rparr>) rs (st\<lparr>total_duration := 0\<rparr>)"
proof (induction rs arbitrary: st)
  case Nil
  then show ?case by simp
next
  case (Cons r rs)
  have "(foldl fold_result st (r # rs))\<lparr>total_duration := 0\<rparr>
          = fold (\<lambda>r s. (fold_result s r)\<lparr>total_duration := 0\<rparr>) rs
              ((fold_result st r)\<lparr>total_duration := 0\<rparr>)"
    using Cons.IH [of "fold_result st r"] by simp
  also have "(fold_result st r)\<lparr>total_duration := 0\<rparr>
          = (fold_result (st\<lparr>total_duration := 0\<rparr>) r)\<lparr>total_duration := 0\<rparr>"
    by (rule fold_result_aside)
  finally show ?case by simp
qed

lemma fold_result_aside_commute:
  "(fold_result ((fold_result s a)\<lparr>total_duration := 0\<rparr>) b)\<lparr>total_duration := 0\<rparr>
     = (fold_result ((fold_result s b)\<lparr>total_duration := 0\<rparr>) a)\<lparr>total_duration := 0\<rparr>"
  by (simp add: fold_result_def Let_def py_min_commute py_max_commute)

lemma foldl_fold_result_mset:
  assumes "mset rs = mset rs'"
  shows "(foldl fold_result st rs)\<lparr>total_duration := 0\<rparr>
           = (foldl fold_result st rs')\<lparr>total_duration := 0\<rparr>"
proof -
  have "fold (\<lambda>r s. (fold_result s r)\<lparr>total_duration := 0\<rparr>) rs
          = fold (\<lambda>r s. (fold_result s r)\<lparr>total_duration := 0\<rparr>) rs'"
    by (rule fold_multiset_equiv) (auto simp: fun_eq_iff fold_result_aside_commute assms)
  then show ?thesis by (simp add: foldl_fold_result_aside)
qed

text \<open>The doubles nearest to 0.1, 0.2 and 0.3, added from 0 in the two directions.\<close>

lemma fadd_tenths_upwards:
  "fadd (fadd (fadd 0 (3602879701896397/36028797018963968)) (3602879701896397/18014398509481984))
        (5404319552844595/18014398509481984)
     = 5404319552844596/9007199254740992"
  by code_simp

lemma fadd_tenths_downwards:
  "fadd (fadd (fadd 0 (5404319552844595/18014398509481984)) (3602879701896397/18014398509481984))
        (3602879701896397/36028797018963968)
     = 5404319552844595/9007199254740992"
  by code_simp

text \<open>
  C5: the fold is commutative and associative, so that any order of the same probe results
  gives the same \<open>total_requests\<close>, \<open>successful_requests\<close>, \<open>failed_requests\<close>,
  \<open>total_duration\<close>, \<open>min_duration\<close> and \<open>max_duration\<close>. Three probes of 0.1, 0.2 and 0.3
  seconds folded in that order give the \<open>total_duration\<close> 0.6000000000000001, and folded in
  the opposite order 0.6: the sum of floats depends on the order.
\<close>

theorem fold_order_total_duration_counterexample:
  "total_duration (foldl fold_result initial_results
      [\<lparr>status = 200, duration = 3602879701896397/36028797018963968, success = True\<rparr>,
       \<lparr>status = 200, duration = 3602879701896397/18014398509481984, success = True\<rparr>,
       \<lparr>status = 200, duration = 5404319552844595/18014398509481984, success = True\<rparr>])
     = 5404319552844596/9007199254740992
   \<and> total_duration (foldl fold_result initial_results
      [\<lparr>status = 200, duration = 5404319552844595/18014398509481984, success = True\<rparr>,
       \<lparr>status = 200, duration = 3602879701896397/18014398509481984, success = True\<rparr>,
       \<lparr>status = 200, duration = 3602879701896397/36028797018963968, success = True\<rparr>])
     = 5404319552844595/9007199254740992
   \<and> foldl fold_result initial_results
      [\<lparr>status = 200, duration = 3602879701896397/36028797018963968, success = True\<rparr>,
       \<lparr>status = 200, duration = 3602879701896397/18014398509481984, success = True\<rparr>,
       \<lparr>status = 200, duration = 5404319552844595/18014398509481984, success = True\<rparr>]
     \<noteq> foldl fold_result initial_results
      [\<lparr>status = 200, duration = 5404319552844595/18014398509481984, success = True\<rparr>,
       \<lparr>status = 200, duration = 3602879701896397/18014398509481984, success = True\<rparr>,
       \<lparr>status = 200, duration = 3602879701896397/36028797018963968, success = True\<rparr>]"
proof -
  let ?a = "\<lparr>status = 200, duration = 3602879701896397/36028797018963968, success = True\<rparr>"
  let ?b = "\<lparr>status = 200, duration = 3602879701896397/18014398509481984, success = True\<rparr>"
  let ?c = "\<lparr>status = 200, duration = 5404319552844595/18014398509481984, success = True\<rparr>"
  have up: "total_duration (foldl fold_result initial_results [?a, ?b, ?c])
              = 5404319552844596/9007199254740992"
    using fadd_tenths_upwards by (simp add: fold_result_def Let_def initial_results_def)
  have down: "total_duration (foldl fold_result initial_results [?c, ?b, ?a])
              = 5404319552844595/9007199254740992"
    using fadd_tenths_downwards by (simp add: fold_result_def Let_def initial_results_def)
  have "total_duration (foldl fold_result initial_results [?a, ?b, ?c])
          \<noteq> total_duration (foldl fold_result initial_results [?c, ?b, ?a])"
    unfolding up down by simp
  then have "foldl fold_result initial_results [?a, ?b, ?c]
          \<noteq> foldl fold_result initial_results [?c, ?b, ?a]"
    by (rule contrapos_nn) simp
  with up down show ?thesis by blast
qed

text \<open>
  C5, as the code has it: two sequences of probe results with the same elements, in whatever
  order, folded into the initial statistics give the same \<open>total_requests\<close>,
  \<open>successful_requests\<close>, \<open>failed_requests\<close>, \<open>min_duration\<close> and \<open>max_duration\<close>.
\<close>

theorem fold_order_independent:
  assumes "mset rs = mset rs'"
  shows "total_requests (foldl fold_result initial_results rs)
           = total_requests (foldl fold_result initial_results rs')
         \<and> successful_requests (foldl fold_result initial_results rs)
           = successful_requests (foldl fold_result initial_results rs')
         \<and> failed_requests (foldl fold_result initial_results rs)
           = failed_requests (foldl fold_result initial_results rs')
         \<and> min_duration (foldl fold_result initial_results rs)
           = min_duration (foldl fold_result initial_results rs')
         \<and> max_duration (foldl fold_result initial_results rs)
           = max_duration (foldl fold_result initial_results rs')"
proof -
  let ?x = "foldl fold_result initial_results rs"
  let ?y = "foldl fold_result initial_results rs'"
  have eq: "?x\<lparr>total_duration := 0\<rparr> = ?y\<lparr>total_duration := 0\<rparr>"
    using assms by (rule foldl_fold_result_mset)
  have "total_requests (?x\<lparr>total_duration := 0\<rparr>) = total_requests (?y\<lparr>total_duration := 0\<rparr>)"
    and "successful_requests (?x\<lparr>total_duration := 0\<rparr>) = successful_requests (?y\<lparr>total_duration := 0\<rparr>)"
    and "failed_requests (?x\<lparr>total_duration := 0\<rparr>) = failed_requests (?y\<lparr>total_duration := 0\<rparr>)"
    and "min_duration (?x\<lparr>total_duration := 0\<rparr>) = min_duration (?y\<lparr>total_duration := 0\<rparr>)"
    and "max_duration (?x\<lparr>total_duration := 0\<rparr>) = max_duration (?y\<lparr>total_duration := 0\<rparr>)"
    by (simp_all only: eq)
  then show ?thesis by simp
qed

theorem fold_order_independent_witness:
  "mset [\<lparr>status = 200, duration = 1/8, success = True\<rparr>, \<lparr>status = 0, duration = 0, success = False\<rparr>]
     = mset [\<lparr>status = 0, duration = 0, success = False\<rparr>, \<lparr>status = 200, duration = 1/8, success = True\<rparr>]
   \<and> total_requests (foldl fold_result initial_results
         [\<lparr>status = 200, duration = 1/8, success = True\<rparr>, \<lparr>status = 0, duration = 0, success = False\<rparr>])
     = total_requests (foldl fold_result initial_results
         [\<lparr>status = 0, duration = 0, success = False\<rparr>, \<lparr>status = 200, duration = 1/8, success = True\<rparr>])
   \<and> min_duration (foldl fold_result initial_results
         [\<lparr>status = 200, duration = 1/8, success = True\<rparr>, \<lparr>status = 0, duration = 0, success = False\<rparr>])
     = min_duration (foldl fold_result initial_results
         [\<lparr>status = 0, duration = 0, success = False\<rparr>, \<lparr>status = 200, duration = 1/8, success = True\<rparr>])
   \<and> max_duration (foldl fold_result initial_results
         [\<lparr>status = 200, duration = 1/8, success = True\<rparr>, \<lparr>status = 0, duration = 0, success = False\<rparr>])
     = max_duration (foldl fold_result initial_results
         [\<lparr>status = 0, duration = 0, success = False\<rparr>, \<lparr>status = 200, duration = 1/8, success = True\<rparr>])"
proof -
  have h: "mset [\<lparr>status = 200, duration = 1/8, success = True\<rparr>, \<lparr>status = 0, duration = 0, success = False\<rparr>]
     = mset [\<lparr>status = 0, duration = 0, success = False\<rparr>, \<lparr>status = 200, duration = 1/8, success = True\<rparr>]"
    by (simp add: add_mset_commute)
  from fold_order_independent [OF h] h show ?thesis by blast
qed


lemma collect_all_results:
  "collect_all st (map Inr rs) = Inr (foldl fold_result st rs)"
  by (induction rs arbitrary: st) (simp_all add: collect_def)

section \<open>The report\<close>




text \<open>A run whose deadline has passed at the first look at the clock reports the empty statistics.\<close>

lemma empty_run_report:
  assumes "0 < concurrent_users" and "\<not> clock w 1 < clock w 0 + duration_seconds"
  shows "run_load_test w concurrent_users duration_seconds = Some (Inr (finalize initial_results))"
proof -
  have "batches w (clock w 0 + duration_seconds) (nat concurrent_users)
          \<lparr>stats = initial_results, ticks = 1, submitted = 0\<rparr>
        = Some (Inr \<lparr>stats = initial_results, ticks = 1, submitted = 0\<rparr>)"
    using assms(2) by (subst batches.simps) simp
  then show ?thesis
    using assms(1) by (simp add: run_load_test_def Let_def)
qed

section \<open>The probe\<close>

text \<open>
  C3: whatever endpoint is drawn, a transport failure of \<^verbatim>\<open>requests.get\<close> (an
  \<^verbatim>\<open>Exception\<close>) makes \<open>make_request\<close> return the result with status 0 and success
  false instead of raising, and when a response is received the result carries its status and
  its success is true exactly when that status is below 400.
\<close>

theorem make_request_captures:
  "(requests_get env (BASE_URL @ ENDPOINTS ! (choice env mod length ENDPOINTS)) = Inl (Exception e)
      \<longrightarrow> make_request env = Inr \<lparr>status = 0, duration = 0, success = False\<rparr>)
   \<and> (requests_get env (BASE_URL @ ENDPOINTS ! (choice env mod length ENDPOINTS)) = Inr resp
      \<longrightarrow> (\<exists>r. make_request env = Inr r \<and> status r = status_code resp
               \<and> (success r \<longleftrightarrow> status_code resp < 400)))"
  by (simp add: make_request_def Let_def)

theorem make_request_captures_witness:
  "requests_get \<lparr>choice = 1, requests_get = (\<lambda>url. Inl (Exception ''timed out'')), started = 5, finished = 15\<rparr>
       (BASE_URL @ ENDPOINTS ! (1 mod length ENDPOINTS)) = Inl (Exception ''timed out'')
   \<and> make_request \<lparr>choice = 1, requests_get = (\<lambda>url. Inl (Exception ''timed out'')), started = 5, finished = 15\<rparr>
       = Inr \<lparr>status = 0, duration = 0, success = False\<rparr>
   \<and> requests_get \<lparr>choice = 0, requests_get = (\<lambda>url. Inr \<lparr>status_code = 404, content = []\<rparr>), started = 5, finished = 6\<rparr>
       (BASE_URL @ ENDPOINTS ! (0 mod length ENDPOINTS)) = Inr \<lparr>status_code = 404, content = []\<rparr>
   \<and> (\<exists>r. make_request \<lparr>choice = 0, requests_get = (\<lambda>url. Inr \<lparr>status_code = 404, content = []\<rparr>), started = 5, finished = 6\<rparr> = Inr r
          \<and> status r = 404 \<and> \<not> success r)"
  using make_request_captures
    [of "\<lparr>choice = 1, requests_get = (\<lambda>url. Inl (Exception ''timed out'')), started = 5, finished = 15\<rparr>" "''timed out''"]
    make_request_captures
    [of "\<lparr>choice = 0, requests_get = (\<lambda>url. Inr \<lparr>status_code = 404, content = []\<rparr>), started = 5, finished = 6\<rparr>" _
        "\<lparr>status_code = 404, content = []\<rparr>"]
  by simp

section \<open>Transport failures and the minimum\<close>

lemma min_duration_foldl:
  "min_duration (foldl fold_result st rs) = foldl py_min (min_duration st) (map duration rs)"
  by (induction rs arbitrary: st) (simp_all add: fold_result_def Let_def)

lemma py_min_keeps_nonneg:
  "(case a of Infinity \<Rightarrow> True | Finite m \<Rightarrow> 0 \<le> m) \<Longrightarrow> 0 \<le> d
   \<Longrightarrow> (case py_min a d of Infinity \<Rightarrow> True | Finite m \<Rightarrow> 0 \<le> m)"
  by (cases a) simp_all

lemma foldl_py_min_nonneg:
  "(case a of Infinity \<Rightarrow> True | Finite m \<Rightarrow> 0 \<le> m) \<Longrightarrow> \<forall>d\<in>set ds. 0 \<le> d
   \<Longrightarrow> (case foldl py_min a ds of Infinity \<Rightarrow> True | Finite m \<Rightarrow> 0 \<le> m)"
proof (induction ds arbitrary: a)
  case Nil
  then show ?case by simp
next
  case (Cons d ds)
  from Cons.prems have "case py_min a d of Infinity \<Rightarrow> True | Finite m \<Rightarrow> 0 \<le> m"
    by (intro py_min_keeps_nonneg) simp_all
  with Cons.prems(2) show ?case
    using Cons.IH [of "py_min a d"] by simp
qed

lemma py_min_zero:
  "(case a of Infinity \<Rightarrow> True | Finite m \<Rightarrow> 0 \<le> m) \<Longrightarrow> py_min a 0 = Finite 0"
  by (cases a) simp_all

lemma foldl_py_min_zero:
  "\<forall>d\<in>set ds. 0 \<le> d \<Longrightarrow> foldl py_min (Finite 0) ds = Finite 0"
  by (induction ds) simp_all

text \<open>
  C10: a probe that failed in transport yields a result of duration 0, so the final
  \<open>min_duration\<close> of every run that folds one is 0. A probe answered with 200 whose second
  clock reading is one second before its first (the wall clock was set back) has the
  duration -1; folded after a transport failure, it leaves the \<open>min_duration\<close> -1.
\<close>

theorem transport_failure_min_counterexample:
  "make_request \<lparr>choice = 0, requests_get = (\<lambda>url. Inl (Exception ''timed out'')),
                 started = 5, finished = 15\<rparr>
     = Inr \<lparr>status = 0, duration = 0, success = False\<rparr>
   \<and> make_request \<lparr>choice = 0, requests_get = (\<lambda>url. Inr \<lparr>status_code = 200, content = []\<rparr>),
                   started = 6, finished = 5\<rparr>
     = Inr \<lparr>status = 200, duration = - 1, success = True\<rparr>
   \<and> min_duration (foldl fold_result initial_results
        [\<lparr>status = 0, duration = 0, success = False\<rparr>,
         \<lparr>status = 200, duration = - 1, success = True\<rparr>])
     = Finite (- 1)"
  by (simp add: make_request_def Let_def fold_result_def initial_results_def)

text \<open>
  C10, as the code has it: a probe that failed in transport yields a result of duration 0, so
  when such a result is among the folded ones and no folded duration is negative, the final
  \<open>min_duration\<close> is 0, whatever the durations of the successful probes.
\<close>

theorem transport_failure_min_zero:
  assumes "requests_get env (BASE_URL @ ENDPOINTS ! (choice env mod length ENDPOINTS)) = Inl (Exception e)"
    and "\<forall>x\<in>set (rs @ rs'). 0 \<le> duration x"
  shows "\<exists>r. make_request env = Inr r \<and> duration r = 0 \<and> \<not> success r
           \<and> min_duration (foldl fold_result initial_results (rs @ r # rs')) = Finite 0"
proof -
  let ?r = "\<lparr>status = 0, duration = 0, success = False\<rparr>"
  have mk: "make_request env = Inr ?r"
    using assms(1) by (simp add: make_request_def Let_def)
  have before: "case foldl py_min Infinity (map duration rs) of Infinity \<Rightarrow> True | Finite m \<Rightarrow> 0 \<le> m"
    using assms(2) by (intro foldl_py_min_nonneg) simp_all
  have after: "\<forall>d\<in>set (map duration rs'). 0 \<le> d"
    using assms(2) by simp
  have "foldl py_min Infinity (map duration (rs @ ?r # rs'))
          = foldl py_min (py_min (foldl py_min Infinity (map duration rs)) 0) (map duration rs')"
    by simp
  also have "\<dots> = foldl py_min (Finite 0) (map duration rs')"
    using py_min_zero [OF before] by simp
  also have "\<dots> = Finite 0"
    using after by (rule foldl_py_min_zero)
  finally have "foldl py_min Infinity (map duration (rs @ ?r # rs')) = Finite 0" .
  moreover have "min_duration initial_results = Infinity"
    by (simp add: initial_results_def)
  ultimately have "min_duration (foldl fold_result initial_results (rs @ ?r # rs')) = Finite 0"
    by (simp only: min_duration_foldl)
  with mk show ?thesis by simp
qed

theorem transport_failure_min_zero_witness:
  "requests_get \<lparr>choice = 1, requests_get = (\<lambda>url. Inl (Exception ''connection refused'')), started = 5, finished = 6\<rparr>
       (BASE_URL @ ENDPOINTS ! (1 mod length ENDPOINTS)) = Inl (Exception ''connection refused'')
   \<and> 0 \<le> duration \<lparr>status = 200, duration = 2/10, success = True\<rparr>
   \<and> 0 \<le> duration \<lparr>status = 200, duration = 3/10, success = True\<rparr>
   \<and> (\<exists>r. make_request \<lparr>choice = 1, requests_get = (\<lambda>url. Inl (Exception ''connection refused'')), started = 5, finished = 6\<rparr> = Inr r
         \<and> duration r = 0 \<and> \<not> success r
         \<and> min_duration (foldl fold_result initial_results
              ([\<lparr>status = 200, duration = 2/10, success = True\<rparr>] @ r # [\<lparr>status = 200, duration = 3/10, success = True\<rparr>]))
            = Finite 0)"
proof -
  have h1: "requests_get \<lparr>choice = 1, requests_get = (\<lambda>url. Inl (Exception ''connection refused'')), started = 5, finished = 6\<rparr>
       (BASE_URL @ ENDPOINTS ! (choice \<lparr>choice = 1, requests_get = (\<lambda>url. Inl (Exception ''connection refused'')), started = 5, finished = 6\<rparr> mod length ENDPOINTS)) = Inl (Exception ''connection refused'')"
    by simp
  have h2: "\<forall>x\<in>set ([\<lparr>status = 200, duration = 2/10, success = True\<rparr>] @ [\<lparr>status = 200, duration = 3/10, success = True\<rparr>]).
         0 \<le> duration x"
    by simp
  show ?thesis
    using h1 h2 transport_failure_min_zero [OF h1 h2] by simp
qed

section \<open>The batches of a run\<close>






section \<open>The middleware\<close>

lemma monitor_requests_returned:
  assumes "call_next request = Inr response"
  shows "fst (monitor_requests request call_next start_time now reg) = Inr response"
    and "REQUEST_COUNT (snd (monitor_requests request call_next start_time now reg))
           = inc (REQUEST_COUNT reg) (http_method request, url_path request, status_code response)"
    and "REQUEST_LATENCY (snd (monitor_requests request call_next start_time now reg))
           = observe (REQUEST_LATENCY reg) (http_method request, url_path request) (now - start_time)"
    and "logger (snd (monitor_requests request call_next start_time now reg))
           = logger reg @ [INFO (http_method request) (url_path request) (status_code response)
                                (now - start_time)]"
  using assms by (simp_all add: monitor_requests_def Let_def)

lemma monitor_requests_raised:
  assumes "call_next request = Inl (Exception e)"
  shows "fst (monitor_requests request call_next start_time now reg)
           = Inr (JSONResponse 500 [(''detail'', Str ''Internal Server Error'')])"
    and "REQUEST_COUNT (snd (monitor_requests request call_next start_time now reg)) = REQUEST_COUNT reg"
    and "REQUEST_LATENCY (snd (monitor_requests request call_next start_time now reg)) = REQUEST_LATENCY reg"
    and "logger (snd (monitor_requests request call_next start_time now reg))
           = logger reg @ [ERROR (''Error processing request: '' @ e)]"
  using assms by (simp_all add: monitor_requests_def)

text \<open>
  C1: one observation (counter increment, histogram observation, log line) per cycle, with
  status 500 when the handler raises. The middleware run on a \<^verbatim>\<open>GET /api/data\<close> whose
  handler raises (a draw below 0.1): the client is answered with status 500, yet the counter
  of \<open>(GET, /api/data, 500)\<close> stays 0, the histogram of \<open>(GET, /api/data)\<close> stays empty,
  and the only line logged is the error line.
\<close>

theorem raising_handler_not_recorded:
  "fst (monitor_requests \<lparr>http_method = ''GET'', url_path = ''/api/data''\<rparr> (\<lambda>request. get_data (5/100))
          0 (3/10) initial_registry)
     = Inr \<lparr>status_code = 500, content = [(''detail'', Str ''Internal Server Error'')]\<rparr>
   \<and> REQUEST_COUNT (snd (monitor_requests \<lparr>http_method = ''GET'', url_path = ''/api/data''\<rparr>
          (\<lambda>request. get_data (5/100)) 0 (3/10) initial_registry)) (''GET'', ''/api/data'', 500) = 0
   \<and> REQUEST_LATENCY (snd (monitor_requests \<lparr>http_method = ''GET'', url_path = ''/api/data''\<rparr>
          (\<lambda>request. get_data (5/100)) 0 (3/10) initial_registry)) (''GET'', ''/api/data'') = []
   \<and> logger (snd (monitor_requests \<lparr>http_method = ''GET'', url_path = ''/api/data''\<rparr>
          (\<lambda>request. get_data (5/100)) 0 (3/10) initial_registry))
     = [ERROR ''Error processing request: Random error occurred'']"
  by (simp add: monitor_requests_def get_data_def JSONResponse_def initial_registry_def)

text \<open>
  C2: the endpoint label is the route template. A \<^verbatim>\<open>GET /users/42\<close>, which the router
  answers with 404, is counted and observed under the label \<^verbatim>\<open>/users/42\<close>, the path as
  requested, which is none of the templates the application declares.
\<close>

theorem endpoint_label_counterexample:
  "REQUEST_COUNT (snd (monitor_requests \<lparr>http_method = ''GET'', url_path = ''/users/42''\<rparr>
          (\<lambda>request. Inr \<lparr>status_code = 404, content = [(''detail'', Str ''Not Found'')]\<rparr>)
          0 (1/100) initial_registry)) (''GET'', ''/users/42'', 404) = 1
   \<and> REQUEST_LATENCY (snd (monitor_requests \<lparr>http_method = ''GET'', url_path = ''/users/42''\<rparr>
          (\<lambda>request. Inr \<lparr>status_code = 404, content = [(''detail'', Str ''Not Found'')]\<rparr>)
          0 (1/100) initial_registry)) (''GET'', ''/users/42'') = [1/100]
   \<and> ''/users/42'' \<notin> set route_templates"
  by (simp add: monitor_requests_def Let_def inc_def observe_def initial_registry_def route_templates_def)

text \<open>
  C2, as the code has it: whenever the handler returns a response, the counter incremented is
  the one of \<open>(method, request.url.path, status)\<close> and the histogram observed is the one of
  \<open>(method, request.url.path)\<close>: the label is the path of the request as it was sent, and
  every other series is left as it was.
\<close>

theorem endpoint_label_is_raw_path:
  assumes "call_next request = Inr response"
  shows "REQUEST_COUNT (snd (monitor_requests request call_next start_time now reg))
           = (REQUEST_COUNT reg)
               ((http_method request, url_path request, status_code response) :=
                  REQUEST_COUNT reg (http_method request, url_path request, status_code response) + 1)
         \<and> REQUEST_LATENCY (snd (monitor_requests request call_next start_time now reg))
           = (REQUEST_LATENCY reg)
               ((http_method request, url_path request) :=
                  REQUEST_LATENCY reg (http_method request, url_path request) @ [now - start_time])"
  using assms by (simp add: monitor_requests_def Let_def inc_def observe_def)

theorem endpoint_label_is_raw_path_witness:
  "(\<lambda>request. get_data (1/2)) \<lparr>http_method = ''GET'', url_path = ''/api/data''\<rparr>
       = Inr \<lparr>status_code = 200, content = [(''data'', Ints [1, 2, 3, 4, 5])]\<rparr>
   \<and> REQUEST_COUNT (snd (monitor_requests \<lparr>http_method = ''GET'', url_path = ''/api/data''\<rparr>
          (\<lambda>request. get_data (1/2)) 0 (3/10) initial_registry)) (''GET'', ''/api/data'', 200) = 1
   \<and> REQUEST_LATENCY (snd (monitor_requests \<lparr>http_method = ''GET'', url_path = ''/api/data''\<rparr>
          (\<lambda>request. get_data (1/2)) 0 (3/10) initial_registry)) (''GET'', ''/api/data'') = [3/10]"
proof -
  have h: "(\<lambda>request. get_data (1/2)) \<lparr>http_method = ''GET'', url_path = ''/api/data''\<rparr>
       = Inr \<lparr>status_code = 200, content = [(''data'', Ints [1, 2, 3, 4, 5])]\<rparr>"
    by (simp add: get_data_def)
  from endpoint_label_is_raw_path
         [where call_next = "\<lambda>request. get_data (1/2)"
            and request = "\<lparr>http_method = ''GET'', url_path = ''/api/data''\<rparr>"
            and response = "\<lparr>status_code = 200, content = [(''data'', Ints [1, 2, 3, 4, 5])]\<rparr>"
            and start_time = 0 and now = "3/10" and reg = initial_registry] h
  show ?thesis by (simp add: initial_registry_def)
qed

text \<open>
  C7: when the handler raises an error (an \<^verbatim>\<open>Exception\<close>), the middleware does not raise:
  it returns the JSON response with status 500 and the detail ``Internal Server Error''.
\<close>

theorem handler_error_becomes_500:
  assumes "call_next request = Inl (Exception e)"
  shows "fst (monitor_requests request call_next start_time now reg)
           = Inr \<lparr>status_code = 500, content = [(''detail'', Str ''Internal Server Error'')]\<rparr>"
  using assms by (simp add: monitor_requests_def JSONResponse_def)

theorem handler_error_becomes_500_witness:
  "(\<lambda>request. get_data (5/100)) \<lparr>http_method = ''GET'', url_path = ''/api/data''\<rparr>
       = Inl (Exception ''Random error occurred'')
   \<and> fst (monitor_requests \<lparr>http_method = ''GET'', url_path = ''/api/data''\<rparr>
          (\<lambda>request. get_data (5/100)) 0 (3/10) initial_registry)
       = Inr \<lparr>status_code = 500, content = [(''detail'', Str ''Internal Server Error'')]\<rparr>"
proof -
  have h: "(\<lambda>request. get_data (5/100)) \<lparr>http_method = ''GET'', url_path = ''/api/data''\<rparr>
       = Inl (Exception ''Random error occurred'')"
    by (simp add: get_data_def)
  from handler_error_becomes_500
         [where call_next = "\<lambda>request. get_data (5/100)"
            and request = "\<lparr>http_method = ''GET'', url_path = ''/api/data''\<rparr>"
            and e = "''Random error occurred''"
            and start_time = 0 and now = "3/10" and reg = initial_registry] h
  show ?thesis by simp
qed

lemma serve_replicate_returned:
  assumes "handler x (incoming x) = Inr response"
  shows "REQUEST_COUNT (serve reg (replicate N x))
             (http_method (incoming x), url_path (incoming x), status_code response)
           = REQUEST_COUNT reg (http_method (incoming x), url_path (incoming x), status_code response) + N
         \<and> length (REQUEST_LATENCY (serve reg (replicate N x)) (http_method (incoming x), url_path (incoming x)))
           = length (REQUEST_LATENCY reg (http_method (incoming x), url_path (incoming x))) + N"
proof (induction N arbitrary: reg)
  case 0
  then show ?case by simp
next
  case (Suc N)
  show ?case
    using Suc.IH [of "snd (monitor_requests (incoming x) (handler x) (arrived x) (answered x) reg)"]
    by (simp add: monitor_requests_returned
                    [where call_next = "handler x" and request = "incoming x", OF assms]
                  inc_def observe_def)
qed

lemma counter_after_identical_requests:
  assumes "handler x (incoming x) = Inr response"
  shows "REQUEST_COUNT (serve initial_registry (replicate N x))
             (http_method (incoming x), url_path (incoming x), status_code response) = N"
  using serve_replicate_returned [OF assms, of initial_registry N]
  by (simp add: initial_registry_def)

text \<open>
  C6: the counter of \<open>(method, endpoint, status)\<close> after \<open>N\<close> identical successful requests
  is \<open>N\<close> (\<open>counter_after_identical_requests\<close> above), and the histogram of
  \<open>(method, endpoint)\<close> counts every request to the endpoint whatever its status. Two
  requests \<^verbatim>\<open>GET /api/data\<close>, the first answered with 200 and the second with a raising
  handler (answered with 500): the histogram holds one observation, not two.
\<close>

theorem histogram_misses_raised:
  "length (REQUEST_LATENCY (serve initial_registry
      [\<lparr>incoming = \<lparr>http_method = ''GET'', url_path = ''/api/data''\<rparr>, handler = (\<lambda>request. get_data (1/2)),
        arrived = 0, answered = 3/10\<rparr>,
       \<lparr>incoming = \<lparr>http_method = ''GET'', url_path = ''/api/data''\<rparr>, handler = (\<lambda>request. get_data (5/100)),
        arrived = 1, answered = 12/10\<rparr>]) (''GET'', ''/api/data'')) = 1
   \<and> REQUEST_COUNT (serve initial_registry
      [\<lparr>incoming = \<lparr>http_method = ''GET'', url_path = ''/api/data''\<rparr>, handler = (\<lambda>request. get_data (1/2)),
        arrived = 0, answered = 3/10\<rparr>,
       \<lparr>incoming = \<lparr>http_method = ''GET'', url_path = ''/api/data''\<rparr>, handler = (\<lambda>request. get_data (5/100)),
        arrived = 1, answered = 12/10\<rparr>]) (''GET'', ''/api/data'', 200) = 1
   \<and> REQUEST_COUNT (serve initial_registry
      [\<lparr>incoming = \<lparr>http_method = ''GET'', url_path = ''/api/data''\<rparr>, handler = (\<lambda>request. get_data (1/2)),
        arrived = 0, answered = 3/10\<rparr>,
       \<lparr>incoming = \<lparr>http_method = ''GET'', url_path = ''/api/data''\<rparr>, handler = (\<lambda>request. get_data (5/100)),
        arrived = 1, answered = 12/10\<rparr>]) (''GET'', ''/api/data'', 500) = 0"
  by (simp add: monitor_requests_def Let_def get_data_def inc_def observe_def initial_registry_def)

end
